theory Spec2Isabelle
  imports Main
begin

section \<open>Strings of the source language\<close>

text \<open>
  The program is Python: a string is a sequence of code points. Here a string is a
  \<^typ>\<open>string\<close>, a list of \<^typ>\<open>char\<close>, and a \<^typ>\<open>char\<close> stands for one code
  point below 256 (\<open>of_char\<close> reads it). So \<open>length\<close> is Python's \<open>len\<close> on
  such strings, and every statement below is about URL strings of code points below 256.
\<close>

datatype error = ValueError | IndexError | TypeError | OtherException

definition code_point :: "char \<Rightarrow> nat" where
  "code_point c = of_char c"

text \<open>\<open>s.find(c)\<close> for a one-character \<open>c\<close>: the first index, \<open>None\<close> for Python's -1.\<close>

fun find_char :: "char \<Rightarrow> string \<Rightarrow> nat option" where
  "find_char c [] = None"
| "find_char c (x # xs) =
     (if x = c then Some 0
      else (case find_char c xs of None \<Rightarrow> None | Some i \<Rightarrow> Some (Suc i)))"

text \<open>\<open>s.find(c, start)\<close>.\<close>

definition find_from :: "char \<Rightarrow> nat \<Rightarrow> string \<Rightarrow> nat option" where
  "find_from c start s =
     (case find_char c (drop start s) of None \<Rightarrow> None | Some i \<Rightarrow> Some (start + i))"

text \<open>\<open>s.partition(c)\<close>: the text before the first \<open>c\<close>, whether \<open>c\<close> was found,
  the text after it.\<close>

definition partition_on :: "char \<Rightarrow> string \<Rightarrow> string \<times> bool \<times> string" where
  "partition_on c s =
     (case find_char c s of
        None \<Rightarrow> (s, False, [])
      | Some i \<Rightarrow> (take i s, True, drop (Suc i) s))"

text \<open>\<open>s.split(c)\<close> for a one-character separator: never the empty list.\<close>

fun split_on :: "char \<Rightarrow> string \<Rightarrow> string list" where
  "split_on c [] = [[]]"
| "split_on c (x # xs) =
     (if x = c then [] # split_on c xs
      else (case split_on c xs of
              [] \<Rightarrow> [[x]]
            | p # ps \<Rightarrow> (x # p) # ps))"

definition startswith :: "string \<Rightarrow> string \<Rightarrow> bool" where
  "startswith s p = (take (length p) s = p)"

definition endswith :: "string \<Rightarrow> string \<Rightarrow> bool" where
  "endswith s p = (length p \<le> length s \<and> drop (length s - length p) s = p)"

text \<open>\<open>s.count(c)\<close> and \<open>c in s\<close> for a one-character \<open>c\<close>.\<close>

definition count_char :: "string \<Rightarrow> char \<Rightarrow> nat" where
  "count_char s c = length (filter (\<lambda>x. x = c) s)"

definition contains :: "string \<Rightarrow> char \<Rightarrow> bool" where
  "contains s c = (c \<in> set s)"

text \<open>\<open>s.isascii()\<close>: every code point is below 128 (true of the empty string).\<close>

definition isascii :: "string \<Rightarrow> bool" where
  "isascii s = list_all (\<lambda>c. code_point c < 128) s"

section \<open>urllib.parse.urlparse\<close>

text \<open>
  \<open>urlparse\<close> is the standard library's (CPython 3.11, \<open>urllib/parse.py\<close>);
  \<open>extract_features\<close> reads the \<open>scheme\<close> and the \<open>netloc\<close> of its result, which
  are those of \<open>urlsplit\<close>: \<open>urlparse\<close> only splits the parameters off the path
  afterwards.
\<close>

record split_result =
  scheme :: string
  netloc :: string
  path :: string
  query :: string
  fragment :: string

definition scheme_chars :: string where
  "scheme_chars =
     ''abcdefghijklmnopqrstuvwxyz'' @ ''ABCDEFGHIJKLMNOPQRSTUVWXYZ'' @ ''0123456789'' @ ''+-.''"

text \<open>\<open>_WHATWG_C0_CONTROL_OR_SPACE\<close>: the code points 0 to 0x20.\<close>

definition c0_control_or_space :: "char \<Rightarrow> bool" where
  "c0_control_or_space c = (code_point c \<le> 32)"

text \<open>\<open>_UNSAFE_URL_BYTES_TO_REMOVE\<close>: tab, carriage return, newline.\<close>

definition unsafe_url_bytes_to_remove :: "char list" where
  "unsafe_url_bytes_to_remove = [CHR 0x09, CHR 0x0D, CHR 0x0A]"

text \<open>\<open>c.isascii() and c.isalpha()\<close>.\<close>

definition ascii_alpha :: "char \<Rightarrow> bool" where
  "ascii_alpha c =
     ((65 \<le> code_point c \<and> code_point c \<le> 90) \<or> (97 \<le> code_point c \<and> code_point c \<le> 122))"

text \<open>\<open>str.lower\<close> on one character of \<open>scheme_chars\<close>.\<close>

definition lower_char :: "char \<Rightarrow> char" where
  "lower_char c =
     (if 65 \<le> code_point c \<and> code_point c \<le> 90 then char_of (code_point c + 32) else c)"

text \<open>\<open>_splitnetloc(url, start)\<close>: the authority ends at the first of \<open>/ ? #\<close>.\<close>

definition splitnetloc :: "string \<Rightarrow> nat \<Rightarrow> string \<times> string" where
  "splitnetloc url start =
     (let delim = fold (\<lambda>c delim. case find_from c start url of
                                    None \<Rightarrow> delim
                                  | Some wdelim \<Rightarrow> min delim wdelim)
                       ''/?#'' (length url)
      in (take (delim - start) (drop start url), drop delim url))"

text \<open>The first steps of \<open>urlsplit\<close>: \<open>url.lstrip(...)\<close>, then every unsafe byte
  removed.\<close>

definition strip_unsafe :: "string \<Rightarrow> string" where
  "strip_unsafe url =
     filter (\<lambda>c. c \<notin> set unsafe_url_bytes_to_remove) (dropWhile c0_control_or_space url)"

text \<open>
  The scheme: \<open>i = url.find(':')\<close>; when \<open>i > 0\<close>, \<open>url[0]\<close> is an ASCII letter and
  every character of \<open>url[:i]\<close> is in \<open>scheme_chars\<close>, the scheme is \<open>url[:i].lower()\<close>
  and the rest is \<open>url[i+1:]\<close>. Otherwise the scheme is the default, the empty string.
\<close>

definition split_scheme :: "string \<Rightarrow> string \<times> string" where
  "split_scheme url =
     (case find_char CHR '':'' url of
        None \<Rightarrow> ('''', url)
      | Some i \<Rightarrow>
          if 0 < i \<and> ascii_alpha (hd url) \<and> list_all (\<lambda>c. c \<in> set scheme_chars) (take i url)
          then (map lower_char (take i url), drop (Suc i) url)
          else ('''', url))"

text \<open>
  What \<open>urlsplit\<close> takes from the interpreter and from the Unicode database:
  \<^item> \<open>bracketed_host_ok\<close>: \<open>_check_bracketed_host\<close> accepts the bracketed host of this
    authority. The check parses the host with the \<open>ipaddress\<close> module and differs
    between interpreter versions.
  \<^item> \<open>nfkc_adds_delimiter n\<close>: the NFKC normal form of \<open>n\<close> differs from \<open>n\<close> and
    contains one of \<open>/ ? # @ :\<close>. The normal form is a table of \<open>unicodedata\<close>.
\<close>

record interpreter =
  bracketed_host_ok :: "string \<Rightarrow> bool"
  nfkc_adds_delimiter :: "string \<Rightarrow> bool"

text \<open>
  The checks of the authority after \<open>_splitnetloc\<close> that raise \<open>ValueError\<close>:
  \<^item> one of \<open>[\<close> and \<open>]\<close> without the other;
  \<^item> both, and a bracketed host that is refused.
\<close>

definition brackets_raise :: "interpreter \<Rightarrow> string \<Rightarrow> bool" where
  "brackets_raise py nl =
     ((contains nl CHR ''['' \<and> \<not> contains nl CHR '']'') \<or>
      (contains nl CHR '']'' \<and> \<not> contains nl CHR ''['') \<or>
      (contains nl CHR ''['' \<and> contains nl CHR '']'' \<and> \<not> bracketed_host_ok py nl))"

text \<open>
  \<open>_checknetloc(netloc)\<close>: it returns at once for an authority that is empty or all
  ASCII. Otherwise \<open>n\<close> is the authority without its \<open>@ : # ?\<close>, and the check raises
  \<open>ValueError\<close> when the normal form of \<open>n\<close> differs from \<open>n\<close> and contains one of
  \<open>/ ? # @ :\<close>.
\<close>

definition checknetloc_raises :: "interpreter \<Rightarrow> string \<Rightarrow> bool" where
  "checknetloc_raises py nl =
     (if nl = [] \<or> isascii nl then False
      else nfkc_adds_delimiter py (filter (\<lambda>c. c \<notin> set ''@:#?'') nl))"

text \<open>The end of \<open>urlsplit\<close>: the fragment is split off at the first \<open>#\<close>, then the
  query at the first \<open>?\<close>.\<close>

definition split_result_of :: "string \<Rightarrow> string \<Rightarrow> string \<Rightarrow> split_result" where
  "split_result_of scheme' netloc' url =
     (case partition_on CHR ''#'' url of
        (url', _, fragment') \<Rightarrow>
          (case partition_on CHR ''?'' url' of
             (url'', _, query') \<Rightarrow>
               \<lparr>scheme = scheme', netloc = netloc', path = url'',
                query = query', fragment = fragment'\<rparr>))"

text \<open>\<open>urlsplit(url)\<close>, with the default scheme \<open>''\<close> and \<open>allow_fragments=True\<close>.
  \<open>_checknetloc\<close> is called last, on the authority, which is empty when the URL
  (after its scheme) does not start with \<open>//\<close>.\<close>

definition urlsplit :: "interpreter \<Rightarrow> string \<Rightarrow> error + split_result" where
  "urlsplit py url0 =
     (case split_scheme (strip_unsafe url0) of
        (scheme', url) \<Rightarrow>
          if take 2 url = ''//''
          then (case splitnetloc url 2 of
                  (netloc', url') \<Rightarrow>
                    if brackets_raise py netloc' then Inl ValueError
                    else if checknetloc_raises py netloc' then Inl ValueError
                    else Inr (split_result_of scheme' netloc' url'))
          else if checknetloc_raises py '''' then Inl ValueError
          else Inr (split_result_of scheme' '''' url))"

definition urlparse :: "interpreter \<Rightarrow> string \<Rightarrow> error + split_result" where
  "urlparse py url = urlsplit py url"

text \<open>An interpreter to evaluate with. It validates no bracketed host, as CPython did
  before 3.11.4; and no normal form adds a delimiter, which is the Unicode table on the
  code points below 256.\<close>

definition no_bracket_validation :: interpreter where
  "no_bracket_validation =
     \<lparr>bracketed_host_ok = (\<lambda>host. True), nfkc_adds_delimiter = (\<lambda>n. False)\<rparr>"

section \<open>Regular expressions of the \<open>re\<close> module\<close>

text \<open>
  The two patterns of the program need anchors, character classes and bounded
  repetition. A pattern is a list of items matched in sequence by a backtracking
  matcher that returns, in the order it tries them, the remainders of the subject
  after every way to match.
\<close>

datatype set_item = Single char | Range char char

text \<open>
  The body of a bracketed set, as the pattern parser reads it: a character followed by
  \<open>-\<close> and another character is a range of code points; any other character stands for
  itself. (No escape occurs in the sets of this program.)
\<close>

fun parse_set :: "string \<Rightarrow> set_item list" where
  "parse_set (lo # m # hi # rest) =
     (if m = CHR ''-'' then Range lo hi # parse_set rest
      else Single lo # parse_set (m # hi # rest))"
| "parse_set (c # rest) = Single c # parse_set rest"
| "parse_set [] = []"

fun in_item :: "char \<Rightarrow> set_item \<Rightarrow> bool" where
  "in_item c (Single d) = (c = d)"
| "in_item c (Range lo hi) = (code_point lo \<le> code_point c \<and> code_point c \<le> code_point hi)"

datatype cclass = Digit | Literal char | InSet "set_item list"

text \<open>\<open>\d\<close> is a decimal digit; below code point 256 these are \<open>0\<close> to \<open>9\<close>.\<close>

fun in_class :: "cclass \<Rightarrow> char \<Rightarrow> bool" where
  "in_class Digit c = (48 \<le> code_point c \<and> code_point c \<le> 57)"
| "in_class (Literal d) c = (c = d)"
| "in_class (InSet items) c = list_ex (in_item c) items"

datatype item = Bol | Eol | Repeat nat nat cclass

text \<open>\<open>x{lo,hi}\<close>: the remainders after \<open>k\<close> characters of the class, \<open>lo \<le> k \<le> hi\<close>,
  longest first.\<close>

fun rep_match :: "cclass \<Rightarrow> nat \<Rightarrow> nat \<Rightarrow> string \<Rightarrow> string list" where
  "rep_match cls lo 0 s = (if lo = 0 then [s] else [])"
| "rep_match cls lo (Suc hi) [] = (if lo = 0 then [[]] else [])"
| "rep_match cls lo (Suc hi) (c # cs) =
     (if in_class cls c then rep_match cls (lo - 1) hi cs else []) @
     (if lo = 0 then [c # cs] else [])"

text \<open>
  \<open>bos\<close> says that nothing of the subject has been consumed. Without flags, \<open>^\<close> matches
  there only, and \<open>$\<close> matches at the end of the subject and also just before a newline
  that ends it.
\<close>

fun match_from :: "item list \<Rightarrow> bool \<Rightarrow> string \<Rightarrow> string list" where
  "match_from [] bos s = [s]"
| "match_from (Bol # items) bos s = (if bos then match_from items bos s else [])"
| "match_from (Eol # items) bos s =
     (if s = [] \<or> s = [CHR 0x0A] then match_from items bos s else [])"
| "match_from (Repeat lo hi cls # items) bos s =
     concat (map (\<lambda>r. match_from items (bos \<and> length r = length s) r) (rep_match cls lo hi s))"

text \<open>\<open>re.match(p, s)\<close> as a truth value: a match object or \<open>None\<close>.\<close>

definition re_match :: "item list \<Rightarrow> string \<Rightarrow> bool" where
  "re_match p s = (match_from p True s \<noteq> [])"

text \<open>
  \<open>re.findall(p, s)\<close> for a pattern without groups: the matched texts, scanning from
  the left, each search starting where the last match ended. An empty match is reported
  and the search moves on by one character; a position without a match is skipped.
\<close>

function findall_from :: "item list \<Rightarrow> bool \<Rightarrow> string \<Rightarrow> string list" where
  "findall_from p bos s =
     (case match_from p bos s of
        r # _ \<Rightarrow>
          if length r < length s
          then take (length s - length r) s # findall_from p False r
          else (case s of [] \<Rightarrow> [[]] | _ # cs \<Rightarrow> [] # findall_from p False cs)
      | [] \<Rightarrow> (case s of [] \<Rightarrow> [] | _ # cs \<Rightarrow> findall_from p False cs))"
  by pat_completeness auto
termination
  by (relation "measure (\<lambda>(p, bos, s). length s)") auto

definition findall :: "item list \<Rightarrow> string \<Rightarrow> string list" where
  "findall p s = findall_from p True s"

text \<open>\<open>r'^\d{1,3}\.\d{1,3}\.\d{1,3}\.\d{1,3}$'\<close>\<close>

definition ip_pattern :: "item list" where
  "ip_pattern =
     [Bol,
      Repeat 1 3 Digit, Repeat 1 1 (Literal CHR ''.''),
      Repeat 1 3 Digit, Repeat 1 1 (Literal CHR ''.''),
      Repeat 1 3 Digit, Repeat 1 1 (Literal CHR ''.''),
      Repeat 1 3 Digit,
      Eol]"

text \<open>\<open>r'[@?-_&=%]'\<close>\<close>

definition special_pattern :: "item list" where
  "special_pattern = [Repeat 1 1 (InSet (parse_set ''@?-_&=%''))]"

section \<open>The feature record\<close>

text \<open>
  \<open>features\<close> is a Python dict filled by assignments: keys keep the order of their
  first assignment. \<open>pd.DataFrame([features])\<close> is a table of one row whose columns
  are the keys in that order.
\<close>

type_synonym pydict = "(string \<times> int) list"

fun dict_set :: "pydict \<Rightarrow> string \<Rightarrow> int \<Rightarrow> pydict" where
  "dict_set [] k v = [(k, v)]"
| "dict_set ((k', v') # d) k v =
     (if k' = k then (k, v) # d else (k', v') # dict_set d k v)"

record dataframe =
  columns :: "string list"
  rows :: "int list list"

definition DataFrame :: "pydict \<Rightarrow> dataframe" where
  "DataFrame d = \<lparr>columns = map fst d, rows = [map snd d]\<rparr>"

text \<open>The value of a column in the first row.\<close>

definition cell :: "dataframe \<Rightarrow> string \<Rightarrow> int option" where
  "cell df name = (case rows df of [] \<Rightarrow> None | r # _ \<Rightarrow> map_of (zip (columns df) r) name)"

section \<open>extract\_features\<close>

text \<open>The body of \<open>extract_features\<close> after \<open>parsed_url = urlparse(url)\<close>: the dict
  \<open>features\<close> is filled field by field and returned as a table of one row.\<close>

definition fill_features :: "string \<Rightarrow> split_result \<Rightarrow> error + dataframe" where
  "fill_features url parsed_url =
          (let f0 = [];
               f1 = dict_set f0 ''url_length'' (int (length url));
               f2 = dict_set f1 ''hostname_length'' (int (length (netloc parsed_url)));
               f3 = dict_set f2 ''ip_in_url''
                      (if re_match ip_pattern (netloc parsed_url) then 1 else 0);
               f4 = dict_set f3 ''https_in_url''
                      (if scheme parsed_url = ''https'' then 1 else 0);
               f5 = dict_set f4 ''special_chars'' (int (length (findall special_pattern url)));
               f6 = dict_set f5 ''num_dots'' (int (count_char url CHR ''.''));
               f7 = dict_set f6 ''at_sign'' (if contains url CHR ''@'' then 1 else 0);
               f8 = dict_set f7 ''hyphen_in_url'' (if contains url CHR ''-'' then 1 else 0);
               parts = split_on CHR ''.'' (netloc parsed_url);
               f9 = dict_set f8 ''hyphen_in_subdomain''
                      (if list_ex (\<lambda>part. startswith part ''-'' \<or> endswith part ''-'') parts
                       then 1 else 0);
               domain = netloc parsed_url
           in (case split_on CHR ''.'' domain of
                 [] \<Rightarrow> Inl IndexError
               | first # _ \<Rightarrow>
                   Inr (DataFrame (dict_set f9 ''long_domain''
                                     (if 30 < length first then 1 else 0)))))"

definition extract_features :: "interpreter \<Rightarrow> string \<Rightarrow> error + dataframe" where
  "extract_features py url =
     (case urlparse py url of
        Inl e \<Rightarrow> Inl e
      | Inr parsed_url \<Rightarrow> fill_features url parsed_url)"

text \<open>Reading one field of the result, \<open>extract_features(url)[name][0]\<close>.\<close>

definition feature :: "error + dataframe \<Rightarrow> string \<Rightarrow> int option" where
  "feature r name = (case r of Inl e \<Rightarrow> None | Inr df \<Rightarrow> cell df name)"

section \<open>The cache of \<open>urlsplit\<close>\<close>

text \<open>
  \<open>extract_features\<close> keeps nothing of its own between calls: \<open>features\<close> is a
  local dict, and the function reads no global, clock or random source. What a call
  does read and write is the cache of the parser: \<open>urlsplit\<close> is wrapped in
  \<open>functools.lru_cache(typed=True)\<close>, with the default \<open>maxsize\<close> of 128, and
  \<open>urlparse(url)\<close> calls \<open>urlsplit(url, '', True)\<close> through it. So the result of a
  call is computed from the URL and from what earlier calls left in the cache.

  The cache is the list of its entries for those arguments, the most recently used
  first. A call looks its URL up:
  \<^item> on a hit it returns the stored result and moves the entry to the front;
  \<^item> on a miss it runs \<open>urlsplit\<close>; an exception passes through and nothing is
    stored; a result is stored at the front, and the least recently used entry is
    dropped when the cache is full.
\<close>

type_synonym urlsplit_cache = "(string \<times> split_result) list"

definition lru_maxsize :: nat where
  "lru_maxsize = 128"

definition urlsplit_cached ::
  "interpreter \<Rightarrow> urlsplit_cache \<Rightarrow> string \<Rightarrow> (error + split_result) \<times> urlsplit_cache" where
  "urlsplit_cached py cache url =
     (case map_of cache url of
        Some result \<Rightarrow> (Inr result, (url, result) # filter (\<lambda>entry. fst entry \<noteq> url) cache)
      | None \<Rightarrow>
          (case urlsplit py url of
             Inl e \<Rightarrow> (Inl e, cache)
           | Inr result \<Rightarrow> (Inr result, take lru_maxsize ((url, result) # cache))))"

definition urlparse_cached ::
  "interpreter \<Rightarrow> urlsplit_cache \<Rightarrow> string \<Rightarrow> (error + split_result) \<times> urlsplit_cache" where
  "urlparse_cached py cache url = urlsplit_cached py cache url"

text \<open>One call of \<open>extract_features\<close> in a process whose cache is \<open>cache\<close>: the result,
  and the cache it leaves.\<close>

definition extract_features_cached ::
  "interpreter \<Rightarrow> urlsplit_cache \<Rightarrow> string \<Rightarrow> (error + dataframe) \<times> urlsplit_cache" where
  "extract_features_cached py cache url =
     (case urlparse_cached py cache url of
        (Inl e, cache') \<Rightarrow> (Inl e, cache')
      | (Inr parsed_url, cache') \<Rightarrow> (fill_features url parsed_url, cache'))"

text \<open>The cache of a process that has parsed the URLs \<open>history\<close>, in this order, since
  it started (or since \<open>clear_cache()\<close>).\<close>

definition cache_after :: "interpreter \<Rightarrow> string list \<Rightarrow> urlsplit_cache" where
  "cache_after py history = fold (\<lambda>url cache. snd (urlsplit_cached py cache url)) history []"

text \<open>Every entry of the cache is a result of \<open>urlsplit\<close> on its key.\<close>

definition cache_sound :: "interpreter \<Rightarrow> urlsplit_cache \<Rightarrow> bool" where
  "cache_sound py cache = list_all (\<lambda>entry. urlsplit py (fst entry) = Inr (snd entry)) cache"

section \<open>The button handler\<close>

text \<open>
  The body of \<open>if st.button(...)\<close>, as the list of what it does, in order. The classifier
  is the unpickled \<open>model\<close>: its two methods may raise, and it may or may not have
  \<open>feature_importances_\<close>. A probability is a value of the type \<open>'p\<close>.
\<close>

record 'p classifier =
  predict :: "dataframe \<Rightarrow> error + int"
  predict_proba :: "dataframe \<Rightarrow> error + 'p \<times> 'p"
  has_feature_importances :: bool

datatype 'p event =
    StWarning
  | StSpinner
  | CallExtractFeatures string
  | CallPredict dataframe
  | CallPredictProba dataframe
  | StErrorPhishing 'p
  | StSuccessSafe 'p
  | AnalysisHeading
  | ImportanceChart
  | LengthHeading
  | StErrorException error
  | StInfoHint

text \<open>
  After the verdict the handler draws the importance chart when the model has
  \<open>feature_importances_\<close> (taken here not to raise), then builds \<open>length_df\<close> from
  \<open>len(url) for url in df.index\<close>; the index of \<open>df\<close> holds integers, so that raises
  \<open>TypeError\<close>, caught like every other exception of the \<open>try\<close> block.
\<close>

definition after_verdict :: "'p classifier \<Rightarrow> 'p event list" where
  "after_verdict model =
     AnalysisHeading #
     (if has_feature_importances model then [ImportanceChart] else []) @
     [LengthHeading, StErrorException TypeError, StInfoHint]"

definition on_click :: "'p classifier \<Rightarrow> interpreter \<Rightarrow> string \<Rightarrow> 'p event list" where
  "on_click model py user_input =
     (if user_input = [] \<or> user_input = ''https://'' then [StWarning]
      else StSpinner # CallExtractFeatures user_input #
        (case extract_features py user_input of
           Inl e \<Rightarrow> [StErrorException e, StInfoHint]
         | Inr features_df \<Rightarrow>
             CallPredict features_df #
             (case predict model features_df of
                Inl e \<Rightarrow> [StErrorException e, StInfoHint]
              | Inr prediction \<Rightarrow>
                  CallPredictProba features_df #
                  (case predict_proba model features_df of
                     Inl e \<Rightarrow> [StErrorException e, StInfoHint]
                   | Inr (p_safe, p_phish) \<Rightarrow>
                       (if prediction = 1 then StErrorPhishing p_phish
                        else StSuccessSafe p_safe) #
                       after_verdict model))))"

fun is_call :: "'p event \<Rightarrow> bool" where
  "is_call (CallExtractFeatures _) = True"
| "is_call (CallPredict _) = True"
| "is_call (CallPredictProba _) = True"
| "is_call _ = False"

text \<open>A classifier to run the handler on: it answers safe for every record.\<close>

definition always_safe :: "nat classifier" where
  "always_safe =
     \<lparr>predict = (\<lambda>df. Inr 0), predict_proba = (\<lambda>df. Inr (1, 0)),
      has_feature_importances = False\<rparr>"

section \<open>What the specification says, in its own words\<close>

text \<open>The ten fields of the data model, in the order the program assigns them.\<close>

definition feature_names :: "string list" where
  "feature_names =
     [''url_length'', ''hostname_length'', ''ip_in_url'', ''https_in_url'',
      ''special_chars'', ''num_dots'', ''at_sign'', ''hyphen_in_url'',
      ''hyphen_in_subdomain'', ''long_domain'']"

text \<open>The count of characters of the set \<open>{@, ?, -, _, &, =, %}\<close> in the URL.\<close>

definition special_count_spec :: "string \<Rightarrow> nat" where
  "special_count_spec url = length (filter (\<lambda>c. c \<in> set ''@?-_&=%'') url)"




section \<open>Facts about the string operations\<close>

lemma split_on_nonempty: "split_on c s \<noteq> []"
  by (induction s) (auto split: list.splits)

lemma split_on_set: "l \<in> set (split_on c s) \<Longrightarrow> set l \<subseteq> set s"
proof (induction s arbitrary: l)
  case Nil
  then show ?case by simp
next
  case (Cons x xs)
  show ?case
  proof (cases "x = c")
    case True
    with Cons show ?thesis by auto
  next
    case False
    obtain p ps where sp: "split_on c xs = p # ps"
      using split_on_nonempty[of c xs] by (cases "split_on c xs") auto
    with False Cons.prems have "l = x # p \<or> l \<in> set ps" by simp
    then show ?thesis
    proof
      assume "l = x # p"
      moreover have "set p \<subseteq> set xs" using Cons.IH[of p] sp by simp
      ultimately show ?thesis by auto
    next
      assume "l \<in> set ps"
      then have "set l \<subseteq> set xs" using Cons.IH[of l] sp by simp
      then show ?thesis by auto
    qed
  qed
qed

section \<open>Facts about the parser\<close>

lemma splitnetloc_fst_subset: "set (fst (splitnetloc url start)) \<subseteq> set url"
proof -
  have "set (take n (drop start url)) \<subseteq> set url" for n
    by (meson set_drop_subset set_take_subset subset_trans)
  then show ?thesis by (simp add: splitnetloc_def Let_def)
qed

lemma split_scheme_subset: "set (snd (split_scheme u)) \<subseteq> set u"
  by (auto simp: split_scheme_def split: option.splits dest: in_set_dropD)

lemma strip_unsafe_subset: "set (strip_unsafe u) \<subseteq> set u"
  by (auto simp: strip_unsafe_def dest: set_dropWhileD)



lemma checknetloc_raises_empty [simp]: "checknetloc_raises py [] = False"
  by (simp add: checknetloc_raises_def)


lemma netloc_split_result_of [simp]: "netloc (split_result_of s n u) = n"
  by (simp add: split_result_of_def split: prod.splits)

lemma scheme_split_result_of [simp]: "scheme (split_result_of s n u) = s"
  by (simp add: split_result_of_def split: prod.splits)

text \<open>The authority is made of characters of the URL that survive the stripping.\<close>

lemma urlsplit_netloc:
  assumes "urlsplit py url = Inr p"
  shows "set (netloc p) \<subseteq> set (strip_unsafe url)"
proof -
  obtain s u where su: "split_scheme (strip_unsafe url) = (s, u)"
    by (cases "split_scheme (strip_unsafe url)")
  have u: "set u \<subseteq> set (strip_unsafe url)"
    using split_scheme_subset[of "strip_unsafe url"] su by simp
  show ?thesis
  proof (cases "take 2 u = ''//''")
    case True
    obtain n r where nr: "splitnetloc u 2 = (n, r)" by (cases "splitnetloc u 2")
    have "set n \<subseteq> set u" using splitnetloc_fst_subset[of u 2] nr by simp
    moreover have "netloc p = n"
      using assms su True nr by (auto simp: urlsplit_def split: if_splits)
    ultimately show ?thesis using u by blast
  next
    case False
    then have "netloc p = []" using assms su by (auto simp: urlsplit_def)
    then show ?thesis by simp
  qed
qed


section \<open>Facts about the record\<close>

lemma extract_features_Inr:
  assumes "urlparse py url = Inr p"
  shows "extract_features py url =
     Inr \<lparr>columns = feature_names,
          rows = [[int (length url),
                   int (length (netloc p)),
                   (if re_match ip_pattern (netloc p) then 1 else 0),
                   (if scheme p = ''https'' then 1 else 0),
                   int (length (findall special_pattern url)),
                   int (count_char url CHR ''.''),
                   (if contains url CHR ''@'' then 1 else 0),
                   (if contains url CHR ''-'' then 1 else 0),
                   (if list_ex (\<lambda>part. startswith part ''-'' \<or> endswith part ''-'')
                        (split_on CHR ''.'' (netloc p)) then 1 else 0),
                   (if 30 < length (hd (split_on CHR ''.'' (netloc p))) then 1 else 0)]]\<rparr>"
proof -
  obtain f fs where sp: "split_on CHR ''.'' (netloc p) = f # fs"
    using split_on_nonempty[of "CHR ''.''" "netloc p"]
    by (cases "split_on CHR ''.'' (netloc p)") auto
  show ?thesis
    unfolding extract_features_def fill_features_def Let_def using assms sp
    by (simp add: DataFrame_def feature_names_def split del: if_split)
qed

lemma extract_features_Inl: "urlparse py url = Inl e \<Longrightarrow> extract_features py url = Inl e"
  by (simp add: extract_features_def)

lemma cell_row:
  "cell \<lparr>columns = feature_names, rows = [[v0, v1, v2, v3, v4, v5, v6, v7, v8, v9]]\<rparr> name =
     map_of [(''url_length'', v0), (''hostname_length'', v1), (''ip_in_url'', v2),
             (''https_in_url'', v3), (''special_chars'', v4), (''num_dots'', v5),
             (''at_sign'', v6), (''hyphen_in_url'', v7), (''hyphen_in_subdomain'', v8),
             (''long_domain'', v9)] name"
  by (simp add: cell_def feature_names_def)

section \<open>Facts about the matcher\<close>

text \<open>A pattern that is one character class finds the characters of the class.\<close>

lemma findall_single:
  "findall_from [Repeat 1 1 cls] bos s = map (\<lambda>c. [c]) (filter (in_class cls) s)"
proof (induction s arbitrary: bos)
  case Nil
  show ?case by simp
next
  case (Cons c cs)
  show ?case
  proof (cases "in_class cls c")
    case True
    then have "match_from [Repeat 1 1 cls] bos (c # cs) = [cs]" by simp
    then show ?thesis using True Cons.IH[of False] by simp
  next
    case False
    then have "match_from [Repeat 1 1 cls] bos (c # cs) = []" by simp
    then show ?thesis using False Cons.IH[of False] by simp
  qed
qed

text \<open>The set \<open>[@?-_&=%]\<close> holds \<open>@\<close>, \<open>&\<close>, \<open>=\<close>, \<open>%\<close> and the code points
  from \<open>?\<close> (63) to \<open>_\<close> (95); the hyphen (45) is not among them.\<close>

lemma special_class:
  "in_class (InSet (parse_set ''@?-_&=%'')) =
     (\<lambda>c. c = CHR ''@'' \<or> (63 \<le> code_point c \<and> code_point c \<le> 95) \<or>
          c = CHR ''&'' \<or> c = CHR ''='' \<or> c = CHR ''%'')"
  by (rule ext) (simp add: code_point_def)

lemma special_findall:
  "findall special_pattern url =
     map (\<lambda>c. [c])
       (filter (\<lambda>c. c = CHR ''@'' \<or> (63 \<le> code_point c \<and> code_point c \<le> 95) \<or>
                    c = CHR ''&'' \<or> c = CHR ''='' \<or> c = CHR ''%'') url)"
  by (simp only: findall_def special_pattern_def findall_single special_class)

section \<open>Two worked URLs\<close>

lemmas parse_eval =
  urlparse_def urlsplit_def split_scheme_def strip_unsafe_def c0_control_or_space_def
  code_point_def unsafe_url_bytes_to_remove_def ascii_alpha_def scheme_chars_def
  splitnetloc_def find_from_def brackets_raise_def contains_def lower_char_def
  split_result_of_def partition_on_def checknetloc_raises_def isascii_def

lemma parse_empty:
  "urlparse py '''' =
     Inr \<lparr>scheme = '''', netloc = '''', path = '''', query = '''', fragment = ''''\<rparr>"
  by (simp add: parse_eval)

lemma parse_example:
  "urlparse py ''https://example.com'' =
     Inr \<lparr>scheme = ''https'', netloc = ''example.com'', path = '''', query = '''',
          fragment = ''''\<rparr>"
  by (simp add: parse_eval)

lemma ip_empty: "re_match ip_pattern '''' = False"
  by code_simp

lemma ip_example: "re_match ip_pattern ''example.com'' = False"
  by code_simp

lemma special_example: "findall special_pattern ''https://example.com'' = []"
  unfolding special_findall by (simp add: code_point_def)

lemma row_empty:
  "extract_features py '''' =
     Inr \<lparr>columns = feature_names, rows = [[0, 0, 0, 0, 0, 0, 0, 0, 0, 0]]\<rparr>"
  using extract_features_Inr[OF parse_empty, of py]
  by (simp add: ip_empty special_findall count_char_def contains_def startswith_def
      endswith_def)

lemma row_example:
  "extract_features py ''https://example.com'' =
     Inr \<lparr>columns = feature_names, rows = [[19, 11, 0, 1, 0, 1, 0, 0, 0, 0]]\<rparr>"
  using extract_features_Inr[OF parse_example, of py]
  by (simp add: ip_example special_example count_char_def contains_def startswith_def
      endswith_def)

text \<open>The first call in a fresh process, and the call after it.\<close>

lemma fill_example:
  "fill_features ''https://example.com''
     \<lparr>scheme = ''https'', netloc = ''example.com'', path = '''', query = '''',
      fragment = ''''\<rparr> =
   Inr \<lparr>columns = feature_names, rows = [[19, 11, 0, 1, 0, 1, 0, 0, 0, 0]]\<rparr>"
  using row_example[of py] by (simp add: extract_features_def parse_example)

lemma cached_miss_example:
  "extract_features_cached py [] ''https://example.com'' =
     (Inr \<lparr>columns = feature_names, rows = [[19, 11, 0, 1, 0, 1, 0, 0, 0, 0]]\<rparr>,
      [(''https://example.com'',
        \<lparr>scheme = ''https'', netloc = ''example.com'', path = '''', query = '''',
         fragment = ''''\<rparr>)])"
  using parse_example[of py]
  by (simp add: extract_features_cached_def urlparse_cached_def urlsplit_cached_def
      urlparse_def fill_example lru_maxsize_def)

lemma cached_hit_example:
  "extract_features_cached py
       [(''https://example.com'',
        \<lparr>scheme = ''https'', netloc = ''example.com'', path = '''', query = '''',
         fragment = ''''\<rparr>)] ''https://example.com'' =
     (Inr \<lparr>columns = feature_names, rows = [[19, 11, 0, 1, 0, 1, 0, 0, 0, 0]]\<rparr>,
      [(''https://example.com'',
        \<lparr>scheme = ''https'', netloc = ''example.com'', path = '''', query = '''',
         fragment = ''''\<rparr>)])"
  by (simp add: extract_features_cached_def urlparse_cached_def urlsplit_cached_def
      fill_example)


lemma extract_features_Inr_inv:
  assumes "extract_features py url = Inr df"
  obtains p where "urlparse py url = Inr p"
  using assms by (cases "urlparse py url") (auto simp: extract_features_Inl)

lemma special_chars_value:
  assumes "urlparse py url = Inr p"
  shows "feature (extract_features py url) ''special_chars'' =
           Some (int (length (filter
             (\<lambda>c. c = CHR ''@'' \<or> (63 \<le> code_point c \<and> code_point c \<le> 95) \<or>
                  c = CHR ''&'' \<or> c = CHR ''='' \<or> c = CHR ''%'') url)))"
  unfolding extract_features_Inr[OF assms] feature_def
  by (simp add: cell_row special_findall)

lemma parse_my_site:
  "urlparse py ''https://my-site.com'' =
     Inr \<lparr>scheme = ''https'', netloc = ''my-site.com'', path = '''', query = '''',
          fragment = ''''\<rparr>"
  by (simp add: parse_eval)

lemma parse_Example:
  "urlparse py ''https://Example.com'' =
     Inr \<lparr>scheme = ''https'', netloc = ''Example.com'', path = '''', query = '''',
          fragment = ''''\<rparr>"
  by (simp add: parse_eval)

lemma parse_evil:
  "urlparse py ''http://-evil.com'' =
     Inr \<lparr>scheme = ''http'', netloc = ''-evil.com'', path = '''', query = '''',
          fragment = ''''\<rparr>"
  by (simp add: parse_eval)

lemma ip_evil: "re_match ip_pattern ''-evil.com'' = False"
  by code_simp

lemma row_evil:
  "extract_features py ''http://-evil.com'' =
     Inr \<lparr>columns = feature_names, rows = [[16, 9, 0, 0, 0, 1, 0, 1, 1, 0]]\<rparr>"
  using extract_features_Inr[OF parse_evil, of py]
  by (simp add: ip_evil special_findall count_char_def contains_def startswith_def
      endswith_def code_point_def)

text \<open>With a real URL the handler starts the analysis.\<close>

lemma on_click_real_url:
  assumes "user_input \<noteq> ''''" "user_input \<noteq> ''https://''"
  shows "take 2 (on_click model py user_input) = [StSpinner, CallExtractFeatures user_input]"
  using assms by (simp add: on_click_def)

lemma startswith_hyphen: "startswith s ''-'' = (s \<noteq> [] \<and> hd s = CHR ''-'')"
  by (cases s) (auto simp: startswith_def)

lemma endswith_hyphen: "endswith s ''-'' = (s \<noteq> [] \<and> last s = CHR ''-'')"
  by (cases s rule: rev_cases) (auto simp: endswith_def)

lemma edge_hyphen_in_set:
  "startswith s ''-'' \<or> endswith s ''-'' \<Longrightarrow> CHR ''-'' \<in> set s"
  unfolding startswith_hyphen endswith_hyphen
  using hd_in_set last_in_set by metis



section \<open>The address pattern\<close>
























section \<open>Facts about the cache\<close>

lemma cache_sound_lookup:
  assumes "cache_sound py cache" "map_of cache url = Some result"
  shows "urlsplit py url = Inr result"
proof -
  from assms(2) have "(url, result) \<in> set cache" by (rule map_of_SomeD)
  with assms(1) show ?thesis by (auto simp: cache_sound_def list_all_iff)
qed

text \<open>A hit returns what \<open>urlsplit\<close> would compute.\<close>

lemma urlsplit_cached_result:
  assumes "cache_sound py cache"
  shows "fst (urlsplit_cached py cache url) = urlsplit py url"
proof (cases "map_of cache url")
  case None
  then show ?thesis by (simp add: urlsplit_cached_def split: sum.splits)
next
  case (Some result)
  then show ?thesis using cache_sound_lookup[OF assms Some] by (simp add: urlsplit_cached_def)
qed

text \<open>A call leaves a cache whose entries are again results of \<open>urlsplit\<close>.\<close>

lemma urlsplit_cached_sound:
  assumes "cache_sound py cache"
  shows "cache_sound py (snd (urlsplit_cached py cache url))"
proof (cases "map_of cache url")
  case (Some result)
  have "urlsplit py url = Inr result" by (rule cache_sound_lookup[OF assms Some])
  then show ?thesis using assms Some
    by (auto simp: urlsplit_cached_def cache_sound_def list_all_iff)
next
  case None
  show ?thesis
  proof (cases "urlsplit py url")
    case (Inl e)
    then show ?thesis using assms None by (simp add: urlsplit_cached_def)
  next
    case (Inr result)
    have "set (take lru_maxsize ((url, result) # cache)) \<subseteq> set ((url, result) # cache)"
      by (rule set_take_subset)
    then show ?thesis using assms None Inr
      by (auto simp: urlsplit_cached_def cache_sound_def list_all_iff)
  qed
qed

lemma cache_after_snoc:
  "cache_after py (history @ [url]) = snd (urlsplit_cached py (cache_after py history) url)"
  by (simp add: cache_after_def)

text \<open>So every cache that the process reaches holds results of \<open>urlsplit\<close>.\<close>

lemma cache_after_sound: "cache_sound py (cache_after py history)"
proof (induction history rule: rev_induct)
  case Nil
  show ?case by (simp add: cache_after_def cache_sound_def)
next
  case (snoc url history)
  then show ?case unfolding cache_after_snoc by (rule urlsplit_cached_sound)
qed

lemma extract_features_cached_snd:
  "snd (extract_features_cached py cache url) = snd (urlsplit_cached py cache url)"
  by (cases "urlsplit_cached py cache url")
     (simp add: extract_features_cached_def urlparse_cached_def split: sum.splits)

text \<open>With such a cache, a call returns what the function of the URL returns.\<close>

lemma extract_features_cached_result:
  assumes "cache_sound py cache"
  shows "fst (extract_features_cached py cache url) = extract_features py url"
proof -
  obtain r cache' where rc: "urlsplit_cached py cache url = (r, cache')"
    by (cases "urlsplit_cached py cache url")
  then have "r = urlsplit py url" using urlsplit_cached_result[OF assms, of url] by simp
  with rc show ?thesis
    by (simp add: extract_features_cached_def urlparse_cached_def extract_features_def
        urlparse_def split: sum.splits)
qed

section \<open>The claims\<close>

text \<open>
  C6. \<open>extract_features("")\<close> returns a record with \<open>url_length\<close> 0, \<open>hostname_length\<close> 0
  and every boolean field (\<open>ip_in_url\<close>, \<open>https_in_url\<close>, \<open>at_sign\<close>, \<open>hyphen_in_url\<close>,
  \<open>hyphen_in_subdomain\<close>, \<open>long_domain\<close>) equal to 0.
\<close>

theorem extract_features_empty:
  "feature (extract_features py '''') ''url_length'' = Some 0 \<and>
   feature (extract_features py '''') ''hostname_length'' = Some 0 \<and>
   feature (extract_features py '''') ''ip_in_url'' = Some 0 \<and>
   feature (extract_features py '''') ''https_in_url'' = Some 0 \<and>
   feature (extract_features py '''') ''at_sign'' = Some 0 \<and>
   feature (extract_features py '''') ''hyphen_in_url'' = Some 0 \<and>
   feature (extract_features py '''') ''hyphen_in_subdomain'' = Some 0 \<and>
   feature (extract_features py '''') ''long_domain'' = Some 0"
  by (simp add: row_empty feature_def cell_row)

text \<open>
  C3, as the specification has it, gives \<open>url_length\<close> 20 for \<open>"https://example.com"\<close>.
  The string has 19 characters, and \<open>len(url)\<close> is 19.
\<close>

theorem extract_features_example_url_length_not_20:
  "feature (extract_features no_bracket_validation ''https://example.com'') ''url_length''
     \<noteq> Some 20"
  by (simp add: row_example feature_def cell_row)

text \<open>
  C3, amended. \<open>extract_features("https://example.com")\<close> returns a record with
  \<open>https_in_url\<close> 1, \<open>at_sign\<close> 0, \<open>ip_in_url\<close> 0, \<open>num_dots\<close> 1, \<open>hyphen_in_url\<close> 0,
  \<open>long_domain\<close> 0, \<open>hyphen_in_subdomain\<close> 0, \<open>hostname_length\<close> 11 and \<open>url_length\<close> 19.
\<close>

theorem extract_features_example:
  "feature (extract_features py ''https://example.com'') ''https_in_url'' = Some 1 \<and>
   feature (extract_features py ''https://example.com'') ''at_sign'' = Some 0 \<and>
   feature (extract_features py ''https://example.com'') ''ip_in_url'' = Some 0 \<and>
   feature (extract_features py ''https://example.com'') ''num_dots'' = Some 1 \<and>
   feature (extract_features py ''https://example.com'') ''hyphen_in_url'' = Some 0 \<and>
   feature (extract_features py ''https://example.com'') ''long_domain'' = Some 0 \<and>
   feature (extract_features py ''https://example.com'') ''hyphen_in_subdomain'' = Some 0 \<and>
   feature (extract_features py ''https://example.com'') ''hostname_length'' = Some 11 \<and>
   feature (extract_features py ''https://example.com'') ''url_length'' = Some 19"
  by (simp add: row_example feature_def cell_row)




text \<open>
  C9. For every URL on which \<open>extract_features\<close> returns, the result is a table of one
  row whose columns are, in this order: \<open>url_length\<close>, \<open>hostname_length\<close>, \<open>ip_in_url\<close>,
  \<open>https_in_url\<close>, \<open>special_chars\<close>, \<open>num_dots\<close>, \<open>at_sign\<close>, \<open>hyphen_in_url\<close>,
  \<open>hyphen_in_subdomain\<close>, \<open>long_domain\<close>.
\<close>

theorem extract_features_columns:
  assumes "extract_features py url = Inr df"
  shows "columns df =
           [''url_length'', ''hostname_length'', ''ip_in_url'', ''https_in_url'',
            ''special_chars'', ''num_dots'', ''at_sign'', ''hyphen_in_url'',
            ''hyphen_in_subdomain'', ''long_domain''] \<and>
         length (rows df) = 1"
proof -
  from assms obtain p where p: "urlparse py url = Inr p" by (rule extract_features_Inr_inv)
  show ?thesis using assms unfolding extract_features_Inr[OF p]
    by (auto simp: feature_names_def)
qed

theorem extract_features_columns_witness:
  "columns \<lparr>columns = feature_names, rows = [[19, 11, 0, 1, 0, 1, 0, 0, 0, 0]]\<rparr> =
           [''url_length'', ''hostname_length'', ''ip_in_url'', ''https_in_url'',
            ''special_chars'', ''num_dots'', ''at_sign'', ''hyphen_in_url'',
            ''hyphen_in_subdomain'', ''long_domain''] \<and>
   extract_features no_bracket_validation ''https://example.com'' =
     Inr \<lparr>columns = feature_names, rows = [[19, 11, 0, 1, 0, 1, 0, 0, 0, 0]]\<rparr>"
  using extract_features_columns[OF row_example[of no_bracket_validation]] row_example
  by simp

text \<open>
  C8. \<open>extract_features\<close> is deterministic: two calls with the same string give the same
  result, a record or the exception raised. The calls are made in the state of the
  process, the cache of \<open>urlsplit\<close>, which a call reads and writes:
  \<^item> a call and the next call with the same string, which runs on the cache that the
    first one left, give the same result;
  \<^item> two calls with the same string give the same result whatever URLs the process has
    parsed before each of them.
\<close>

theorem extract_features_deterministic:
  "(case extract_features_cached py (cache_after py history) s of
      (r1, cache1) \<Rightarrow>
        (case extract_features_cached py cache1 s of (r2, cache2) \<Rightarrow> r1 = r2)) \<and>
   fst (extract_features_cached py (cache_after py history) s) =
   fst (extract_features_cached py (cache_after py other_history) s)"
proof -
  let ?c = "cache_after py history"
  have c: "cache_sound py ?c" by (rule cache_after_sound)
  have c': "cache_sound py (cache_after py other_history)" by (rule cache_after_sound)
  have next_sound: "cache_sound py (snd (extract_features_cached py ?c s))"
    unfolding extract_features_cached_snd by (rule urlsplit_cached_sound[OF c])
  have first: "fst (extract_features_cached py ?c s) = extract_features py s"
    by (rule extract_features_cached_result[OF c])
  have second: "fst (extract_features_cached py (snd (extract_features_cached py ?c s)) s) =
      extract_features py s"
    by (rule extract_features_cached_result[OF next_sound])
  have other: "fst (extract_features_cached py (cache_after py other_history) s) =
      extract_features py s"
    by (rule extract_features_cached_result[OF c'])
  show ?thesis using first second other by (simp add: case_prod_unfold)
qed

text \<open>On the empty cache the call parses the URL and stores the result; the next call
  finds it there and returns the same record.\<close>

theorem extract_features_deterministic_witness:
  "extract_features_cached no_bracket_validation [] ''https://example.com'' =
     (Inr \<lparr>columns = feature_names, rows = [[19, 11, 0, 1, 0, 1, 0, 0, 0, 0]]\<rparr>,
      [(''https://example.com'',
        \<lparr>scheme = ''https'', netloc = ''example.com'', path = '''', query = '''',
         fragment = ''''\<rparr>)]) \<and>
   extract_features_cached no_bracket_validation
       [(''https://example.com'',
        \<lparr>scheme = ''https'', netloc = ''example.com'', path = '''', query = '''',
         fragment = ''''\<rparr>)] ''https://example.com'' =
     (Inr \<lparr>columns = feature_names, rows = [[19, 11, 0, 1, 0, 1, 0, 0, 0, 0]]\<rparr>,
      [(''https://example.com'',
        \<lparr>scheme = ''https'', netloc = ''example.com'', path = '''', query = '''',
         fragment = ''''\<rparr>)])"
  using extract_features_deterministic
          [where py = no_bracket_validation and history = "[]"
             and s = "''https://example.com''"
             and other_history = "[''https://example.com'']"]
    cached_miss_example[of no_bracket_validation] cached_hit_example[of no_bracket_validation]
  by simp

text \<open>
  C2 says that \<open>special_chars\<close> counts the characters of \<open>{@, ?, -, _, &, =, %}\<close>. In the
  pattern \<open>[@?-_&=%]\<close> the hyphen stands between \<open>?\<close> and \<open>_\<close>, so it makes the range of
  code points 63 to 95: a hyphen is not counted, and an upper-case letter is. On
  \<open>"https://my-site.com"\<close> the program gives 0 where the set gives 1, and on
  \<open>"https://Example.com"\<close> it gives 1 where the set gives 0.
\<close>

theorem special_chars_range_slip:
  "feature (extract_features py ''https://my-site.com'') ''special_chars'' = Some 0 \<and>
   special_count_spec ''https://my-site.com'' = 1 \<and>
   feature (extract_features py ''https://Example.com'') ''special_chars'' = Some 1 \<and>
   special_count_spec ''https://Example.com'' = 0"
  by (simp add: special_chars_value[OF parse_my_site] special_chars_value[OF parse_Example]
      special_count_spec_def code_point_def)

text \<open>
  C7. When the submitted input is the empty string or the placeholder \<open>"https://"\<close>, the
  handler calls neither \<open>extract_features\<close> nor \<open>predict\<close> nor \<open>predict_proba\<close>: all
  it does is warn the user to enter a URL.
\<close>

theorem placeholder_never_classified:
  assumes "user_input = '''' \<or> user_input = ''https://''"
  shows "on_click model py user_input = [StWarning] \<and>
         \<not> list_ex is_call (on_click model py user_input)"
  using assms by (auto simp: on_click_def)

theorem placeholder_never_classified_witness:
  "on_click always_safe no_bracket_validation '''' = [StWarning] \<and>
   on_click always_safe no_bracket_validation ''https://'' = [StWarning] \<and>
   \<not> list_ex is_call (on_click always_safe no_bracket_validation ''https://'')"
  using placeholder_never_classified[of "''''" always_safe no_bracket_validation]
    placeholder_never_classified[of "''https://''" always_safe no_bracket_validation]
  by simp

text \<open>
  C10. For every URL on which \<open>extract_features\<close> returns, \<open>hyphen_in_subdomain\<close> = 1
  implies \<open>hyphen_in_url\<close> = 1: a hyphen at the edge of a label of the authority is a
  hyphen of the URL.
\<close>

theorem subdomain_hyphen_implies_url_hyphen:
  assumes "extract_features py url = Inr df"
    and "cell df ''hyphen_in_subdomain'' = Some 1"
  shows "cell df ''hyphen_in_url'' = Some 1"
proof -
  from assms(1) obtain p where p: "urlparse py url = Inr p" by (rule extract_features_Inr_inv)
  from assms have ex: "list_ex (\<lambda>part. startswith part ''-'' \<or> endswith part ''-'')
                      (split_on CHR ''.'' (netloc p))"
    unfolding extract_features_Inr[OF p] by (auto simp: cell_row split: if_splits)
  then obtain part where part: "part \<in> set (split_on CHR ''.'' (netloc p))"
    and edge: "startswith part ''-'' \<or> endswith part ''-''"
    by (auto simp: list_ex_iff)
  have "CHR ''-'' \<in> set part" using edge by (rule edge_hyphen_in_set)
  then have "CHR ''-'' \<in> set (netloc p)" using split_on_set[OF part] by blast
  then have "CHR ''-'' \<in> set url"
    using urlsplit_netloc[of py url p] p strip_unsafe_subset[of url] by (auto simp: urlparse_def)
  then show ?thesis
    using assms(1) unfolding extract_features_Inr[OF p] by (auto simp: cell_row contains_def)
qed

theorem subdomain_hyphen_implies_url_hyphen_witness:
  "cell \<lparr>columns = feature_names, rows = [[16, 9, 0, 0, 0, 1, 0, 1, 1, 0]]\<rparr>
     ''hyphen_in_url'' = Some 1 \<and>
   extract_features no_bracket_validation ''http://-evil.com'' =
     Inr \<lparr>columns = feature_names, rows = [[16, 9, 0, 0, 0, 1, 0, 1, 1, 0]]\<rparr>"
  using subdomain_hyphen_implies_url_hyphen[OF row_evil[of no_bracket_validation]] row_evil
  by (simp add: cell_row)





end
